theory Spec2Isabelle
  imports Complex_Main "HOL-Library.Multiset"
begin

section \<open>Topic extraction (sesg/topic\_extraction.py)\<close>

text \<open>
  The module holds two functions, \<open>extract_topics_with_lda\<close> and
  \<open>extract_topics_with_bertopic\<close>. Each one configures objects of third-party libraries
  (scikit-learn, numpy, UMAP, BERTopic), fits them and reshapes what they return. The
  libraries are not part of the module, so the model takes them as a parameter: a record
  of the library entry points the two functions call. Everything the functions do
  themselves (the keyword arguments they pass, the order of the calls, the list
  comprehensions that build the result, the indexing that can raise) is modelled here.
\<close>

subsection \<open>Python values, exceptions and the state of a run\<close>

text \<open>
  An exception is a value; \<open>IndexError\<close> is the one exception the module's own
  expressions can raise (the subscript \<open>feature_names[i]\<close>), every other exception
  comes out of a library call.
\<close>

datatype error = IndexError | LibraryError string

text \<open>
  The values the functions pass as keyword arguments. Floats are passed through and never
  computed with; they are modelled by rationals. \<open>PyObj\<close> is a library object
  (a vectorizer, a fitted model), opaque to the module.
\<close>

datatype 'o pyval =
    PyNone
  | PyBool bool
  | PyInt int
  | PyFloat rat
  | PyStr string
  | PyTuple "'o pyval list"
  | PyObj 'o

type_synonym 'o kwargs = "(string \<times> 'o pyval) list"

text \<open>
  The caller's \<open>docs\<close> is a reference to a list object: the functions hand that
  reference to the libraries, which could write through it. The world of a run is the store
  behind such references and the state the libraries keep outside their objects (numpy's
  global random generator, caches, downloaded models).
\<close>

type_synonym ref = nat

record 'g world =
  store :: "ref \<Rightarrow> string list"
  ambient :: 'g

text \<open>
  A library call takes the world and returns a value or raises, with the world it leaves.
  Methods that mutate their receiver (\<open>fit\<close>, \<open>fit_transform\<close>) return the
  receiver as it is after the call. \<open>components\<close> is the attribute
  \<open>components_\<close> of a fitted LDA model, one row of weights per topic, and
  \<open>argsort\<close> is numpy's method on such a row; both only read their argument. The
  weights are floats, compared and never computed with: any linear order \<open>'w\<close>.
\<close>

type_synonym ('g, 'a) libcall = "'g world \<Rightarrow> (error + 'a) \<times> 'g world"

record ('o, 'w, 'g) library =
  import_from :: "string \<Rightarrow> string \<Rightarrow> ('g, unit) libcall"
  CountVectorizer :: "'o kwargs \<Rightarrow> ('g, 'o) libcall"
  vectorizer_fit_transform :: "'o \<Rightarrow> ref \<Rightarrow> ('g, 'o \<times> 'o) libcall"
  get_feature_names_out :: "'o \<Rightarrow> ('g, string list) libcall"
  LatentDirichletAllocation :: "'o kwargs \<Rightarrow> ('g, 'o) libcall"
  lda_fit :: "'o \<Rightarrow> 'o \<Rightarrow> ('g, 'o) libcall"
  components :: "'o \<Rightarrow> 'w list list"
  argsort :: "'w list \<Rightarrow> nat list"
  UMAP :: "'o kwargs \<Rightarrow> ('g, 'o) libcall"
  BERTopic :: "'o kwargs \<Rightarrow> ('g, 'o) libcall"
  bertopic_fit_transform :: "'o \<Rightarrow> ref \<Rightarrow> ('g, 'o) libcall"
  get_topics :: "'o \<Rightarrow> ('g, (int \<times> (string \<times> 'w) list) list) libcall"

text \<open>
  Every library call a function makes is recorded, in order, with its arguments and with
  whether it returned or raised. The record is kept beside the world, out of the
  libraries' reach.
\<close>

datatype 'o call =
    Import_from string string
  | New_CountVectorizer "'o kwargs"
  | Vectorizer_fit_transform 'o ref
  | Get_feature_names_out 'o
  | New_LatentDirichletAllocation "'o kwargs"
  | Lda_fit 'o 'o
  | New_UMAP "'o kwargs"
  | New_BERTopic "'o kwargs"
  | Bertopic_fit_transform 'o ref
  | Get_topics 'o

datatype outcome = Returned | Raised error

type_synonym 'o event = "'o call \<times> outcome"

type_synonym ('g, 'o) state = "'g world \<times> 'o event list"

type_synonym ('g, 'o, 'a) py = "('g, 'o) state \<Rightarrow> (error + 'a) \<times> ('g, 'o) state"

definition outcome_of :: "error + 'a \<Rightarrow> outcome" where
  "outcome_of r = (case r of Inl e \<Rightarrow> Raised e | Inr _ \<Rightarrow> Returned)"

definition invoke :: "'o call \<Rightarrow> ('g, 'a) libcall \<Rightarrow> ('g, 'o, 'a) py" where
  "invoke c f s =
     (case f (fst s) of (r, w') \<Rightarrow> (r, (w', snd s @ [(c, outcome_of r)])))"

text \<open>Sequencing: a statement that raises ends the function with that exception.\<close>

definition bind_py :: "('g, 'o, 'a) py \<Rightarrow> ('a \<Rightarrow> ('g, 'o, 'b) py) \<Rightarrow> ('g, 'o, 'b) py" where
  "bind_py m k s = (case m s of (Inl e, s') \<Rightarrow> (Inl e, s') | (Inr a, s') \<Rightarrow> k a s')"

definition pure_py :: "error + 'a \<Rightarrow> ('g, 'o, 'a) py" where
  "pure_py r s = (r, s)"

subsection \<open>The library calls as the module writes them\<close>

definition py_import_from :: "('o, 'w, 'g) library \<Rightarrow> string \<Rightarrow> string \<Rightarrow> ('g, 'o, unit) py" where
  "py_import_from lib module_name name =
     invoke (Import_from module_name name) (import_from lib module_name name)"

definition new_CountVectorizer :: "('o, 'w, 'g) library \<Rightarrow> 'o kwargs \<Rightarrow> ('g, 'o, 'o) py" where
  "new_CountVectorizer lib kw = invoke (New_CountVectorizer kw) (CountVectorizer lib kw)"

definition call_vectorizer_fit_transform ::
  "('o, 'w, 'g) library \<Rightarrow> 'o \<Rightarrow> ref \<Rightarrow> ('g, 'o, 'o \<times> 'o) py" where
  "call_vectorizer_fit_transform lib vectorizer docs =
     invoke (Vectorizer_fit_transform vectorizer docs) (vectorizer_fit_transform lib vectorizer docs)"

definition call_get_feature_names_out ::
  "('o, 'w, 'g) library \<Rightarrow> 'o \<Rightarrow> ('g, 'o, string list) py" where
  "call_get_feature_names_out lib vectorizer =
     invoke (Get_feature_names_out vectorizer) (get_feature_names_out lib vectorizer)"

definition new_LatentDirichletAllocation ::
  "('o, 'w, 'g) library \<Rightarrow> 'o kwargs \<Rightarrow> ('g, 'o, 'o) py" where
  "new_LatentDirichletAllocation lib kw =
     invoke (New_LatentDirichletAllocation kw) (LatentDirichletAllocation lib kw)"

definition call_lda_fit :: "('o, 'w, 'g) library \<Rightarrow> 'o \<Rightarrow> 'o \<Rightarrow> ('g, 'o, 'o) py" where
  "call_lda_fit lib lda tf = invoke (Lda_fit lda tf) (lda_fit lib lda tf)"

definition new_UMAP :: "('o, 'w, 'g) library \<Rightarrow> 'o kwargs \<Rightarrow> ('g, 'o, 'o) py" where
  "new_UMAP lib kw = invoke (New_UMAP kw) (UMAP lib kw)"

definition new_BERTopic :: "('o, 'w, 'g) library \<Rightarrow> 'o kwargs \<Rightarrow> ('g, 'o, 'o) py" where
  "new_BERTopic lib kw = invoke (New_BERTopic kw) (BERTopic lib kw)"

definition call_bertopic_fit_transform ::
  "('o, 'w, 'g) library \<Rightarrow> 'o \<Rightarrow> ref \<Rightarrow> ('g, 'o, 'o) py" where
  "call_bertopic_fit_transform lib topic_model docs =
     invoke (Bertopic_fit_transform topic_model docs) (bertopic_fit_transform lib topic_model docs)"

definition call_get_topics ::
  "('o, 'w, 'g) library \<Rightarrow> 'o \<Rightarrow> ('g, 'o, (int \<times> (string \<times> 'w) list) list) py" where
  "call_get_topics lib topic_model =
     invoke (Get_topics topic_model) (get_topics lib topic_model)"

subsection \<open>Subscripts and list comprehensions\<close>

text \<open>
  \<open>feature_names[i]\<close> with an index from \<open>argsort\<close> (never negative): out of
  range it raises IndexError.
\<close>

definition getitem :: "'a list \<Rightarrow> nat \<Rightarrow> error + 'a" where
  "getitem xs i = (if i < length xs then Inr (xs ! i) else Inl IndexError)"

text \<open>
  A list comprehension whose element expression can raise: the elements are evaluated
  from left to right and the first exception ends the comprehension.
\<close>

primrec comprehension :: "('a \<Rightarrow> error + 'b) \<Rightarrow> 'a list \<Rightarrow> error + 'b list" where
  "comprehension f [] = Inr []"
| "comprehension f (x # xs) =
     (case f x of
        Inl e \<Rightarrow> Inl e
      | Inr y \<Rightarrow> (case comprehension f xs of Inl e \<Rightarrow> Inl e | Inr ys \<Rightarrow> Inr (y # ys)))"

subsection \<open>extract\_topics\_with\_lda\<close>

text \<open>
  Lines 57 to 99: the import, the vectorizer, its fit on the documents, the feature
  names, the LDA model and its fit. The values bound to \<open>feature_names\<close> and
  \<open>lda\<close> at line 99 are returned, for the comprehension of lines 113 to 115.
\<close>

definition lda_vectorizer_kwargs :: "rat \<Rightarrow> 'o kwargs" where
  "lda_vectorizer_kwargs min_document_frequency =
     [(''min_df'', PyFloat min_document_frequency),
      (''max_df'', PyFloat 1),
      (''ngram_range'', PyTuple [PyInt 1, PyInt 3]),
      (''max_features'', PyNone),
      (''stop_words'', PyStr ''english'')]"

definition lda_kwargs :: "int \<Rightarrow> 'o kwargs" where
  "lda_kwargs number_of_topics =
     [(''n_components'', PyInt number_of_topics),
      (''doc_topic_prior'', PyNone),
      (''topic_word_prior'', PyNone),
      (''learning_method'', PyStr ''batch''),
      (''learning_decay'', PyFloat (7 / 10)),
      (''learning_offset'', PyFloat 10),
      (''max_iter'', PyInt 5000),
      (''batch_size'', PyInt 128),
      (''evaluate_every'', PyInt (- 1)),
      (''total_samples'', PyFloat 1000000),
      (''perp_tol'', PyFloat (1 / 10)),
      (''mean_change_tol'', PyFloat (1 / 1000)),
      (''max_doc_update_iter'', PyInt 100),
      (''random_state'', PyInt 0)]"

definition lda_fitted ::
  "('o, 'w, 'g) library \<Rightarrow> ref \<Rightarrow> rat \<Rightarrow> int \<Rightarrow> ('g, 'o, string list \<times> 'o) py" where
  "lda_fitted lib docs min_document_frequency number_of_topics =
     bind_py (py_import_from lib ''sklearn.decomposition'' ''LatentDirichletAllocation'') (\<lambda>_.
     bind_py (new_CountVectorizer lib (lda_vectorizer_kwargs min_document_frequency)) (\<lambda>vectorizer.
     bind_py (call_vectorizer_fit_transform lib vectorizer docs) (\<lambda>(vectorizer, tf).
     bind_py (call_get_feature_names_out lib vectorizer) (\<lambda>feature_names.
     bind_py (new_LatentDirichletAllocation lib (lda_kwargs number_of_topics)) (\<lambda>lda.
     bind_py (call_lda_fit lib lda tf) (\<lambda>lda.
     pure_py (Inr (feature_names, lda))))))))"

text \<open>
  Lines 113 to 117:
  \<^verbatim>\<open>[[feature_names[i] for i in topic.argsort()[::-1]] for topic in lda.components_]\<close>
\<close>

definition lda_topics :: "('o, 'w, 'g) library \<Rightarrow> string list \<Rightarrow> 'o \<Rightarrow> error + string list list" where
  "lda_topics lib feature_names lda =
     comprehension (\<lambda>topic. comprehension (\<lambda>i. getitem feature_names i) (rev (argsort lib topic)))
       (components lib lda)"

definition extract_topics_with_lda ::
  "('o, 'w, 'g) library \<Rightarrow> ref \<Rightarrow> rat \<Rightarrow> int \<Rightarrow> ('g, 'o, string list list) py" where
  "extract_topics_with_lda lib docs min_document_frequency number_of_topics =
     bind_py (lda_fitted lib docs min_document_frequency number_of_topics) (\<lambda>(feature_names, lda).
     pure_py (lda_topics lib feature_names lda))"

subsection \<open>extract\_topics\_with\_bertopic\<close>

text \<open>
  Lines 145 to 170 and the call \<open>topic_model.get_topics()\<close> of line 179: the
  imports, the three constructors, the fit on the documents and the mapping from topic id
  to (word, score) pairs, in the mapping's own order.
\<close>

definition bertopic_vectorizer_kwargs :: "'o kwargs" where
  "bertopic_vectorizer_kwargs =
     [(''stop_words'', PyStr ''english''),
      (''ngram_range'', PyTuple [PyInt 1, PyInt 3])]"

definition umap_kwargs :: "int \<Rightarrow> 'o kwargs" where
  "umap_kwargs umap_n_neighbors =
     [(''n_neighbors'', PyInt umap_n_neighbors),
      (''n_components'', PyInt 5),
      (''min_dist'', PyFloat 0),
      (''metric'', PyStr ''cosine''),
      (''low_memory'', PyBool False)]"

definition bertopic_kwargs :: "int \<Rightarrow> int \<Rightarrow> 'o \<Rightarrow> 'o \<Rightarrow> 'o kwargs" where
  "bertopic_kwargs top_n_words min_topic_size vectorizer_model umap_model =
     [(''language'', PyStr ''english''),
      (''verbose'', PyBool True),
      (''top_n_words'', PyInt top_n_words),
      (''min_topic_size'', PyInt min_topic_size),
      (''vectorizer_model'', PyObj vectorizer_model),
      (''umap_model'', PyObj umap_model)]"

definition bertopic_fitted ::
  "('o, 'w, 'g) library \<Rightarrow> ref \<Rightarrow> int \<Rightarrow> int \<Rightarrow> int \<Rightarrow>
     ('g, 'o, (int \<times> (string \<times> 'w) list) list) py" where
  "bertopic_fitted lib docs top_n_words min_topic_size umap_n_neighbors =
     bind_py (py_import_from lib ''bertopic'' ''BERTopic'') (\<lambda>_.
     bind_py (py_import_from lib ''umap.umap_'' ''UMAP'') (\<lambda>_.
     bind_py (new_CountVectorizer lib bertopic_vectorizer_kwargs) (\<lambda>vectorizer_model.
     bind_py (new_UMAP lib (umap_kwargs umap_n_neighbors)) (\<lambda>umap_model.
     bind_py (new_BERTopic lib
                (bertopic_kwargs top_n_words min_topic_size vectorizer_model umap_model)) (\<lambda>topic_model.
     bind_py (call_bertopic_fit_transform lib topic_model docs) (\<lambda>topic_model.
     call_get_topics lib topic_model))))))"

text \<open>
  Lines 177 to 182:
  \<^verbatim>\<open>[[word for word, _ in topic_group] for topic_group in topic_model.get_topics().values()]\<close>
\<close>

definition bertopic_topics :: "(int \<times> (string \<times> 'w) list) list \<Rightarrow> string list list" where
  "bertopic_topics topic_mapping =
     map (\<lambda>topic_group. map (\<lambda>(word, _). word) topic_group) (map snd topic_mapping)"

definition extract_topics_with_bertopic ::
  "('o, 'w, 'g) library \<Rightarrow> ref \<Rightarrow> int \<Rightarrow> int \<Rightarrow> int \<Rightarrow> ('g, 'o, string list list) py" where
  "extract_topics_with_bertopic lib docs top_n_words min_topic_size umap_n_neighbors =
     bind_py (bertopic_fitted lib docs top_n_words min_topic_size umap_n_neighbors) (\<lambda>topic_mapping.
     pure_py (Inr (bertopic_topics topic_mapping)))"

subsection \<open>What a run adds to the record of calls\<close>

definition new_events :: "('g, 'o) state \<Rightarrow> ('g, 'o) state \<Rightarrow> 'o event list" where
  "new_events s s' = drop (length (snd s)) (snd s')"

text \<open>
  \<open>traced P m\<close>: in every run of \<open>m\<close> the record of calls only grows, every
  call made satisfies \<open>P\<close>, a call that raised \<open>e\<close> makes the run end with
  \<open>e\<close>, and a run that ends with \<open>e\<close> has a call that raised \<open>e\<close>.
\<close>

definition traced :: "('o call \<Rightarrow> bool) \<Rightarrow> ('g, 'o, 'a) py \<Rightarrow> bool" where
  "traced P m \<longleftrightarrow>
     (\<forall>s r s'. m s = (r, s') \<longrightarrow>
        (\<exists>new. snd s' = snd s @ new \<and>
           (\<forall>ev \<in> set new. P (fst ev)) \<and>
           (\<forall>c e. (c, Raised e) \<in> set new \<longrightarrow> r = Inl e) \<and>
           (\<forall>e. r = Inl e \<longrightarrow> (\<exists>c. (c, Raised e) \<in> set new))))"

text \<open>
  The libraries' side of the frame condition on \<open>docs\<close>: no entry point writes
  through the reference \<open>docs\<close>. scikit-learn and BERTopic only read the documents.
\<close>

definition keeps :: "ref \<Rightarrow> ('g, 'a) libcall \<Rightarrow> bool" where
  "keeps docs f \<longleftrightarrow> (\<forall>w. store (snd (f w)) docs = store w docs)"

definition library_keeps :: "('o, 'w, 'g) library \<Rightarrow> ref \<Rightarrow> bool" where
  "library_keeps lib docs \<longleftrightarrow>
     (\<forall>module_name name. keeps docs (import_from lib module_name name)) \<and>
     (\<forall>kw. keeps docs (CountVectorizer lib kw)) \<and>
     (\<forall>vectorizer r. keeps docs (vectorizer_fit_transform lib vectorizer r)) \<and>
     (\<forall>vectorizer. keeps docs (get_feature_names_out lib vectorizer)) \<and>
     (\<forall>kw. keeps docs (LatentDirichletAllocation lib kw)) \<and>
     (\<forall>lda tf. keeps docs (lda_fit lib lda tf)) \<and>
     (\<forall>kw. keeps docs (UMAP lib kw)) \<and>
     (\<forall>kw. keeps docs (BERTopic lib kw)) \<and>
     (\<forall>topic_model r. keeps docs (bertopic_fit_transform lib topic_model r)) \<and>
     (\<forall>topic_model. keeps docs (get_topics lib topic_model))"

definition preserves :: "ref \<Rightarrow> ('g, 'o, 'a) py \<Rightarrow> bool" where
  "preserves docs m \<longleftrightarrow> (\<forall>s. store (fst (snd (m s))) docs = store (fst s) docs)"

text \<open>
  What the two functions may ask of the libraries: the constructors with exactly these
  keyword arguments, and no constructor of the other strategy.
\<close>

definition lda_call_ok :: "rat \<Rightarrow> int \<Rightarrow> 'o call \<Rightarrow> bool" where
  "lda_call_ok mdf n c = (case c of
      New_CountVectorizer kw \<Rightarrow> kw = lda_vectorizer_kwargs mdf
    | New_LatentDirichletAllocation kw \<Rightarrow> kw = lda_kwargs n
    | New_UMAP kw \<Rightarrow> False
    | New_BERTopic kw \<Rightarrow> False
    | _ \<Rightarrow> True)"

definition bertopic_call_ok :: "int \<Rightarrow> int \<Rightarrow> int \<Rightarrow> 'o call \<Rightarrow> bool" where
  "bertopic_call_ok t m u c = (case c of
      New_CountVectorizer kw \<Rightarrow> kw = bertopic_vectorizer_kwargs
    | New_LatentDirichletAllocation kw \<Rightarrow> False
    | New_UMAP kw \<Rightarrow> kw = umap_kwargs u
    | New_BERTopic kw \<Rightarrow> (\<exists>vm um. kw = bertopic_kwargs t m vm um)
    | _ \<Rightarrow> True)"

text \<open>
  scikit-learn's side of the subscript \<open>feature_names[i]\<close>: \<open>components_\<close> has one
  column per feature name, and \<open>argsort\<close> returns positions of the row it sorts.
\<close>

definition indices_in_range :: "('o, 'w, 'g) library \<Rightarrow> string list \<Rightarrow> 'o \<Rightarrow> bool" where
  "indices_in_range lib feature_names lda \<longleftrightarrow>
     (\<forall>topic \<in> set (components lib lda). \<forall>i \<in> set (argsort lib topic). i < length feature_names)"

subsection \<open>A small library to run the functions on\<close>

text \<open>
  A stand-in for the libraries, small enough to evaluate: a vectorizer with a fixed
  vocabulary of three words, an LDA whose topic \<open>k\<close> has the weights
  \<open>[k + 2, 7/2 - 3k, 3]\<close>, a stable ascending argsort, and a BERTopic whose UMAP, like
  the real one, draws from the global random generator unless it was given a
  \<open>random_state\<close>.
\<close>

datatype sample_obj =
    Vectorizer bool
  | TermFrequency
  | Lda nat bool
  | Umap "int option"
  | Bertopic nat "int option" "nat option"

definition sample_rotate :: "nat \<Rightarrow> 'a list \<Rightarrow> 'a list" where
  "sample_rotate k xs = drop (k mod length xs) xs @ take (k mod length xs) xs"

definition sample_library :: "(sample_obj, rat, nat) library" where
  "sample_library = \<lparr>
     import_from = (\<lambda>module_name name w. (Inr (), w)),
     CountVectorizer = (\<lambda>kw w. (Inr (Vectorizer False), w)),
     vectorizer_fit_transform = (\<lambda>vectorizer docs w.
       if store w docs = [] then (Inl (LibraryError ''empty vocabulary''), w)
       else (Inr (Vectorizer True, TermFrequency), w)),
     get_feature_names_out = (\<lambda>vectorizer w.
       (case vectorizer of
          Vectorizer True \<Rightarrow> Inr [''code'', ''detection'', ''smells'']
        | _ \<Rightarrow> Inl (LibraryError ''not fitted''), w)),
     LatentDirichletAllocation = (\<lambda>kw w.
       (case map_of kw ''n_components'' of
          Some (PyInt n) \<Rightarrow> Inr (Lda (nat n) False)
        | _ \<Rightarrow> Inl (LibraryError ''n_components''), w)),
     lda_fit = (\<lambda>lda tf w.
       (case lda of
          Lda n _ \<Rightarrow> if n = 0 then Inl (LibraryError ''n_components'') else Inr (Lda n True)
        | _ \<Rightarrow> Inl (LibraryError ''not a model''), w)),
     components = (\<lambda>lda.
       case lda of
         Lda n True \<Rightarrow> map (\<lambda>k. [of_nat k + 2, 7 / 2 - 3 * of_nat k, 3]) [0..<n]
       | _ \<Rightarrow> []),
     argsort = (\<lambda>topic. sort_key (\<lambda>i. topic ! i) [0..<length topic]),
     UMAP = (\<lambda>kw w.
       (Inr (Umap (case map_of kw ''random_state'' of Some (PyInt seed) \<Rightarrow> Some seed | _ \<Rightarrow> None)), w)),
     BERTopic = (\<lambda>kw w.
       (case (map_of kw ''top_n_words'', map_of kw ''umap_model'') of
          (Some (PyInt k), Some (PyObj (Umap seed))) \<Rightarrow> Inr (Bertopic (nat k) seed None)
        | _ \<Rightarrow> Inl (LibraryError ''BERTopic''), w)),
     bertopic_fit_transform = (\<lambda>topic_model docs w.
       case topic_model of
         Bertopic k seed _ \<Rightarrow>
           if store w docs = [] then (Inl (LibraryError ''empty corpus''), w)
           else (case seed of
                   Some fixed \<Rightarrow> (Inr (Bertopic k seed (Some (nat \<bar>fixed\<bar>))), w)
                 | None \<Rightarrow>
                     (Inr (Bertopic k seed (Some (ambient w))), w\<lparr>ambient := Suc (ambient w)\<rparr>))
       | _ \<Rightarrow> (Inl (LibraryError ''not a model''), w)),
     get_topics = (\<lambda>topic_model w.
       (case topic_model of
          Bertopic k _ (Some r) \<Rightarrow>
            Inr [(- 1, take k [(''tools'', 1 / 2), (''java'', 1 / 4)]),
                 (0, take k (sample_rotate r
                       [(''code'', 3 / 4), (''smells'', 1 / 2), (''detection'', 1 / 4)]))]
        | _ \<Rightarrow> Inl (LibraryError ''not fitted''), w))
   \<rparr>"

text \<open>The documents of the docstrings, behind reference 0; reference 1 is an empty list.\<close>

definition sample_docs :: "string list" where
  "sample_docs =
     [''detecting code smells with machine learning'',
      ''code smells detection tools'',
      ''error detection in Java software with machine learning'']"

definition sample_state :: "(nat, sample_obj) state" where
  "sample_state = (\<lparr>store = (\<lambda>r. if r = 0 then sample_docs else []), ambient = 0\<rparr>, [])"

section \<open>Properties\<close>

subsection \<open>Sequencing and the record of calls\<close>

lemma invoke_eq:
  "invoke c f s = (r, s') \<longleftrightarrow> (\<exists>w'. f (fst s) = (r, w') \<and> s' = (w', snd s @ [(c, outcome_of r)]))"
  by (auto simp: invoke_def split: prod.splits)

lemma bind_py_Inr:
  "bind_py m k s = (Inr b, s') \<longleftrightarrow> (\<exists>a s1. m s = (Inr a, s1) \<and> k a s1 = (Inr b, s'))"
  by (auto simp: bind_py_def split: prod.splits sum.splits)

lemma bind_py_Inl:
  "bind_py m k s = (Inl e, s') \<longleftrightarrow>
     m s = (Inl e, s') \<or> (\<exists>a s1. m s = (Inr a, s1) \<and> k a s1 = (Inl e, s'))"
  by (auto simp: bind_py_def split: prod.splits sum.splits)

lemma pure_py_eq: "pure_py r s = (r', s') \<longleftrightarrow> r' = r \<and> s' = s"
  by (auto simp: pure_py_def)

lemmas calls_defs = py_import_from_def new_CountVectorizer_def call_vectorizer_fit_transform_def
  call_get_feature_names_out_def new_LatentDirichletAllocation_def call_lda_fit_def
  new_UMAP_def new_BERTopic_def call_bertopic_fit_transform_def call_get_topics_def

lemma traced_invoke: "P c \<Longrightarrow> traced P (invoke c f)"
  by (auto simp: traced_def invoke_eq outcome_of_def split: sum.splits)

lemma traced_pure: "traced P (pure_py (Inr x))"
  by (simp add: traced_def pure_py_eq)

lemma traced_bind:
  assumes m: "traced P m" and k: "\<And>a. traced P (k a)"
  shows "traced P (bind_py m k)"
  unfolding traced_def
proof (intro allI impI)
  fix s r s'
  assume run: "bind_py m k s = (r, s')"
  obtain r1 s1 where m1: "m s = (r1, s1)" by (cases "m s")
  from m[unfolded traced_def, rule_format, OF m1] obtain new1 where n1: "snd s1 = snd s @ new1" "\<forall>ev \<in> set new1. P (fst ev)"
    "\<forall>c e. (c, Raised e) \<in> set new1 \<longrightarrow> r1 = Inl e"
    "\<forall>e. r1 = Inl e \<longrightarrow> (\<exists>c. (c, Raised e) \<in> set new1)"
    by blast
  show "\<exists>new. snd s' = snd s @ new \<and> (\<forall>ev \<in> set new. P (fst ev)) \<and>
           (\<forall>c e. (c, Raised e) \<in> set new \<longrightarrow> r = Inl e) \<and>
           (\<forall>e. r = Inl e \<longrightarrow> (\<exists>c. (c, Raised e) \<in> set new))"
  proof (cases r1)
    case (Inl e)
    with run m1 have "r = Inl e" "s' = s1" by (auto simp: bind_py_def)
    with n1 Inl show ?thesis by auto
  next
    case (Inr a)
    with run m1 have k1: "k a s1 = (r, s')" by (auto simp: bind_py_def)
    from k[of a, unfolded traced_def, rule_format, OF k1] obtain new2 where n2: "snd s' = snd s1 @ new2" "\<forall>ev \<in> set new2. P (fst ev)"
      "\<forall>c e. (c, Raised e) \<in> set new2 \<longrightarrow> r = Inl e"
      "\<forall>e. r = Inl e \<longrightarrow> (\<exists>c. (c, Raised e) \<in> set new2)"
      by blast
    from n1(3) Inr have none: "\<And>c e. (c, Raised e) \<notin> set new1" by auto
    have "snd s' = snd s @ (new1 @ new2)" using n1(1) n2(1) by simp
    moreover have "\<forall>ev \<in> set (new1 @ new2). P (fst ev)" using n1(2) n2(2) by auto
    moreover have "\<forall>c e. (c, Raised e) \<in> set (new1 @ new2) \<longrightarrow> r = Inl e"
      using none n2(3) by auto
    moreover have "\<forall>e. r = Inl e \<longrightarrow> (\<exists>c. (c, Raised e) \<in> set (new1 @ new2))"
      using n2(4) by auto
    ultimately show ?thesis by blast
  qed
qed

lemma traced_case_prod: "(\<And>a b. traced P (k a b)) \<Longrightarrow> traced P (case_prod k x)"
  by (cases x) simp

lemma traced_new_events:
  assumes "traced P m" and "m s = (r, s')"
  shows "snd s' = snd s @ new_events s s'"
    and "\<forall>ev \<in> set (new_events s s'). P (fst ev)"
    and "\<forall>c e. (c, Raised e) \<in> set (new_events s s') \<longrightarrow> r = Inl e"
    and "\<forall>e. r = Inl e \<longrightarrow> (\<exists>c. (c, Raised e) \<in> set (new_events s s'))"
  using assms unfolding traced_def new_events_def by fastforce+

lemma traced_lda_fitted: "traced (lda_call_ok mdf n) (lda_fitted lib docs mdf n)"
  unfolding lda_fitted_def calls_defs
  by (intro traced_bind traced_invoke traced_pure traced_case_prod; simp add: lda_call_ok_def)


lemma traced_bertopic_fitted: "traced (bertopic_call_ok t m u) (bertopic_fitted lib docs t m u)"
  unfolding bertopic_fitted_def calls_defs
  by (intro traced_bind traced_invoke traced_pure traced_case_prod; auto simp: bertopic_call_ok_def)

lemma traced_extract_bertopic:
  "traced (bertopic_call_ok t m u) (extract_topics_with_bertopic lib docs t m u)"
  unfolding extract_topics_with_bertopic_def
  by (intro traced_bind traced_pure traced_bertopic_fitted)

subsection \<open>Comprehensions and subscripts\<close>

lemma comprehension_Inr:
  "comprehension f xs = Inr ys \<longleftrightarrow> list_all2 (\<lambda>x y. f x = Inr y) xs ys"
proof (induction xs arbitrary: ys)
  case Nil
  show ?case by auto
next
  case (Cons x xs)
  show ?case
    by (cases ys; cases "f x"; cases "comprehension f xs") (auto simp: Cons.IH[symmetric])
qed

lemma comprehension_Inl:
  "comprehension f xs = Inl e \<Longrightarrow> \<exists>x \<in> set xs. f x = Inl e"
  by (induction xs) (auto split: sum.splits)

lemma list_all2_graph:
  "list_all2 (\<lambda>x y. P x \<and> y = g x) xs ys \<longleftrightarrow> (\<forall>x \<in> set xs. P x) \<and> ys = map g xs"
  by (induction xs arbitrary: ys) (auto simp: list_all2_Cons1)

lemma getitem_Inr: "getitem names i = Inr w \<longleftrightarrow> i < length names \<and> w = names ! i"
  by (auto simp: getitem_def)

lemma comprehension_getitem:
  "comprehension (getitem names) is = Inr ws \<longleftrightarrow>
     (\<forall>i \<in> set is. i < length names) \<and> ws = map (\<lambda>i. names ! i) is"
  by (simp add: comprehension_Inr getitem_Inr list_all2_graph)

lemma lda_topics_Inr:
  "lda_topics lib names lda = Inr topics \<longleftrightarrow>
     indices_in_range lib names lda \<and>
     topics = map (\<lambda>topic. map (\<lambda>i. names ! i) (rev (argsort lib topic))) (components lib lda)"
  unfolding lda_topics_def indices_in_range_def
  by (subst comprehension_Inr) (simp add: comprehension_getitem list_all2_graph)

lemma lda_topics_Inl:
  assumes "lda_topics lib names lda = Inl e"
  shows "e = IndexError \<and> \<not> indices_in_range lib names lda"
proof -
  from assms obtain topic where t: "topic \<in> set (components lib lda)"
    "comprehension (getitem names) (rev (argsort lib topic)) = Inl e"
    unfolding lda_topics_def by (blast dest: comprehension_Inl)
  from t(2) obtain i where "i \<in> set (rev (argsort lib topic))" "getitem names i = Inl e"
    by (blast dest: comprehension_Inl)
  with t(1) show ?thesis
    by (auto simp: getitem_def indices_in_range_def split: if_splits)
qed

subsection \<open>Successful runs, call by call\<close>

lemma extract_topics_with_lda_Inr:
  "extract_topics_with_lda lib docs mdf n s = (Inr topics, s') \<longleftrightarrow>
     (\<exists>names lda. lda_fitted lib docs mdf n s = (Inr (names, lda), s') \<and>
        lda_topics lib names lda = Inr topics)"
  by (auto simp: extract_topics_with_lda_def bind_py_Inr pure_py_eq)

lemma extract_topics_with_lda_Inl:
  "extract_topics_with_lda lib docs mdf n s = (Inl e, s') \<longleftrightarrow>
     lda_fitted lib docs mdf n s = (Inl e, s') \<or>
     (\<exists>names lda. lda_fitted lib docs mdf n s = (Inr (names, lda), s') \<and>
        lda_topics lib names lda = Inl e)"
  by (auto simp: extract_topics_with_lda_def bind_py_Inl pure_py_eq)

lemma extract_topics_with_bertopic_Inr:
  "extract_topics_with_bertopic lib docs t m u s = (Inr topics, s') \<longleftrightarrow>
     (\<exists>tm. bertopic_fitted lib docs t m u s = (Inr tm, s') \<and> topics = bertopic_topics tm)"
  by (auto simp: extract_topics_with_bertopic_def bind_py_Inr pure_py_eq)

lemma lda_fitted_run:
  "lda_fitted lib docs mdf n s = (Inr (names, lda'), s') \<longleftrightarrow>
     (\<exists>w1 vectorizer w2 vectorizer' tf w3 w4 lda w5 w6.
        import_from lib ''sklearn.decomposition'' ''LatentDirichletAllocation'' (fst s) = (Inr (), w1) \<and>
        CountVectorizer lib (lda_vectorizer_kwargs mdf) w1 = (Inr vectorizer, w2) \<and>
        vectorizer_fit_transform lib vectorizer docs w2 = (Inr (vectorizer', tf), w3) \<and>
        get_feature_names_out lib vectorizer' w3 = (Inr names, w4) \<and>
        LatentDirichletAllocation lib (lda_kwargs n) w4 = (Inr lda, w5) \<and>
        lda_fit lib lda tf w5 = (Inr lda', w6) \<and>
        s' = (w6, snd s @
          [(Import_from ''sklearn.decomposition'' ''LatentDirichletAllocation'', Returned),
           (New_CountVectorizer (lda_vectorizer_kwargs mdf), Returned),
           (Vectorizer_fit_transform vectorizer docs, Returned),
           (Get_feature_names_out vectorizer', Returned),
           (New_LatentDirichletAllocation (lda_kwargs n), Returned),
           (Lda_fit lda tf, Returned)]))"
  unfolding lda_fitted_def calls_defs
  by (simp add: bind_py_Inr invoke_eq pure_py_eq outcome_of_def split_paired_all split_paired_Ex)
     (auto simp: invoke_eq outcome_of_def)?

lemma bertopic_fitted_run:
  "bertopic_fitted lib docs t m u s = (Inr tm, s') \<longleftrightarrow>
     (\<exists>w1 w2 vectorizer_model w3 umap_model w4 topic_model w5 topic_model' w6 w7.
        import_from lib ''bertopic'' ''BERTopic'' (fst s) = (Inr (), w1) \<and>
        import_from lib ''umap.umap_'' ''UMAP'' w1 = (Inr (), w2) \<and>
        CountVectorizer lib bertopic_vectorizer_kwargs w2 = (Inr vectorizer_model, w3) \<and>
        UMAP lib (umap_kwargs u) w3 = (Inr umap_model, w4) \<and>
        BERTopic lib (bertopic_kwargs t m vectorizer_model umap_model) w4 = (Inr topic_model, w5) \<and>
        bertopic_fit_transform lib topic_model docs w5 = (Inr topic_model', w6) \<and>
        get_topics lib topic_model' w6 = (Inr tm, w7) \<and>
        s' = (w7, snd s @
          [(Import_from ''bertopic'' ''BERTopic'', Returned),
           (Import_from ''umap.umap_'' ''UMAP'', Returned),
           (New_CountVectorizer bertopic_vectorizer_kwargs, Returned),
           (New_UMAP (umap_kwargs u), Returned),
           (New_BERTopic (bertopic_kwargs t m vectorizer_model umap_model), Returned),
           (Bertopic_fit_transform topic_model docs, Returned),
           (Get_topics topic_model', Returned)]))"
  unfolding bertopic_fitted_def calls_defs
  by (simp add: bind_py_Inr invoke_eq pure_py_eq outcome_of_def split_paired_all split_paired_Ex)
     (auto simp: invoke_eq outcome_of_def)?

subsection \<open>The documents are only read\<close>

lemma preserves_invoke:
  assumes "keeps docs f"
  shows "preserves docs (invoke c f)"
  unfolding preserves_def
proof
  fix s
  show "store (fst (snd (invoke c f s))) docs = store (fst s) docs"
  proof -
    have "store (snd (f (fst s))) docs = store (fst s) docs"
      using assms by (simp add: keeps_def)
    then show ?thesis
      by (cases "f (fst s)") (simp add: invoke_def)
  qed
qed

lemma preserves_pure: "preserves docs (pure_py r)"
  by (simp add: preserves_def pure_py_def)

lemma preserves_bind:
  assumes "preserves docs m" and "\<And>a. preserves docs (k a)"
  shows "preserves docs (bind_py m k)"
  unfolding preserves_def
proof
  fix s
  obtain r1 s1 where m1: "m s = (r1, s1)" by (cases "m s")
  with assms(1)[unfolded preserves_def, rule_format, of s]
  have s1: "store (fst s1) docs = store (fst s) docs"
    by simp
  show "store (fst (snd (bind_py m k s))) docs = store (fst s) docs"
  proof (cases r1)
    case (Inl e)
    with m1 s1 show ?thesis by (simp add: bind_py_def)
  next
    case (Inr a)
    with m1 have "bind_py m k s = k a s1" by (simp add: bind_py_def)
    with assms(2)[of a, unfolded preserves_def, rule_format, of s1] s1 show ?thesis by simp
  qed
qed

lemma preserves_case_prod: "(\<And>a b. preserves docs (k a b)) \<Longrightarrow> preserves docs (case_prod k x)"
  by (cases x) simp

lemma preserves_extract_lda:
  "library_keeps lib docs \<Longrightarrow> preserves docs (extract_topics_with_lda lib docs mdf n)"
  unfolding extract_topics_with_lda_def lda_fitted_def calls_defs
  by (intro preserves_bind preserves_invoke preserves_pure preserves_case_prod)
     (simp_all add: library_keeps_def)

lemma preserves_extract_bertopic:
  "library_keeps lib docs \<Longrightarrow> preserves docs (extract_topics_with_bertopic lib docs t m u)"
  unfolding extract_topics_with_bertopic_def bertopic_fitted_def calls_defs
  by (intro preserves_bind preserves_invoke preserves_pure preserves_case_prod)
     (simp_all add: library_keeps_def)

subsection \<open>Runs on the small library\<close>

lemma sample_lda_fitted:
  "fst (lda_fitted sample_library 0 (1 / 10) 2 sample_state) =
     Inr ([''code'', ''detection'', ''smells''], Lda 2 True)"
  by code_simp

lemma sample_lda_result:
  "fst (extract_topics_with_lda sample_library 0 (1 / 10) 2 sample_state) =
     Inr [[''detection'', ''smells'', ''code''], [''smells'', ''code'', ''detection'']]"
  by code_simp

lemma sample_components:
  "components sample_library (Lda 2 True) = [[2, 7 / 2, 3], [3, 1 / 2, 3]]"
  by code_simp

lemma sample_lda_in_range:
  "indices_in_range sample_library [''code'', ''detection'', ''smells''] (Lda 2 True)"
  by code_simp

lemma sample_bertopic_fitted:
  "fst (bertopic_fitted sample_library 0 2 10 15 sample_state) =
     Inr [(- 1, [(''tools'', 1 / 2), (''java'', 1 / 4)]),
          (0, [(''code'', 3 / 4), (''smells'', 1 / 2)])]"
  by code_simp

lemma sample_bertopic_result:
  "fst (extract_topics_with_bertopic sample_library 0 2 10 15 sample_state) =
     Inr [[''tools'', ''java''], [''code'', ''smells'']]"
  by code_simp

lemma sample_lda_events:
  "new_events sample_state (snd (extract_topics_with_lda sample_library 0 (1 / 10) 2 sample_state)) =
     [(Import_from ''sklearn.decomposition'' ''LatentDirichletAllocation'', Returned),
      (New_CountVectorizer (lda_vectorizer_kwargs (1 / 10)), Returned),
      (Vectorizer_fit_transform (Vectorizer False) 0, Returned),
      (Get_feature_names_out (Vectorizer True), Returned),
      (New_LatentDirichletAllocation (lda_kwargs 2), Returned),
      (Lda_fit (Lda 2 False) TermFrequency, Returned)]"
  by code_simp


lemma run_eqI: "fst x = r \<Longrightarrow> x = (r, snd x)"
  by (cases x) simp

lemma extract_lda_state:
  "snd (extract_topics_with_lda lib docs mdf n s) = snd (lda_fitted lib docs mdf n s)"
  by (simp add: extract_topics_with_lda_def bind_py_def pure_py_def split: prod.splits sum.splits)


lemma lda_fitted_events:
  assumes "lda_fitted lib docs mdf n s = (Inr (names, lda'), s')"
  shows "\<exists>vectorizer vectorizer' tf lda.
     new_events s s' =
          [(Import_from ''sklearn.decomposition'' ''LatentDirichletAllocation'', Returned),
           (New_CountVectorizer (lda_vectorizer_kwargs mdf), Returned),
           (Vectorizer_fit_transform vectorizer docs, Returned),
           (Get_feature_names_out vectorizer', Returned),
           (New_LatentDirichletAllocation (lda_kwargs n), Returned),
           (Lda_fit lda tf, Returned)]"
  using assms unfolding lda_fitted_run new_events_def by clarsimp

lemma bertopic_fitted_events:
  assumes "bertopic_fitted lib docs t m u s = (Inr tm, s')"
  shows "\<exists>vectorizer_model umap_model topic_model topic_model'.
     new_events s s' =
          [(Import_from ''bertopic'' ''BERTopic'', Returned),
           (Import_from ''umap.umap_'' ''UMAP'', Returned),
           (New_CountVectorizer bertopic_vectorizer_kwargs, Returned),
           (New_UMAP (umap_kwargs u), Returned),
           (New_BERTopic (bertopic_kwargs t m vectorizer_model umap_model), Returned),
           (Bertopic_fit_transform topic_model docs, Returned),
           (Get_topics topic_model', Returned)]"
  using assms unfolding bertopic_fitted_run new_events_def by clarsimp blast

lemma mset_map_nth_upt: "image_mset (\<lambda>i. xs ! i) (mset [0..<length xs]) = mset xs"
  by (metis map_nth mset_map)

lemma sample_argsort_sorted:
  "sorted (map (\<lambda>i. topic ! i) (argsort sample_library topic))"
  by (simp add: sample_library_def)

lemma sample_argsort_positions:
  "mset (argsort sample_library topic) = mset [0..<length topic]"
  by (simp add: sample_library_def)

lemma sample_lda_empty_docs:
  "fst (extract_topics_with_lda sample_library 1 (1 / 10) 2 sample_state) =
     Inl (LibraryError ''empty vocabulary'')"
  by code_simp

lemma sample_lda_fitted_empty_docs:
  "fst (lda_fitted sample_library 1 (1 / 10) 2 sample_state) =
     Inl (LibraryError ''empty vocabulary'')"
  by code_simp

lemma sample_bertopic_empty_docs:
  "fst (extract_topics_with_bertopic sample_library 1 2 10 15 sample_state) =
     Inl (LibraryError ''empty corpus'')"
  by code_simp

lemma sample_library_keeps: "library_keeps sample_library docs"
  by (simp add: library_keeps_def keeps_def sample_library_def
      split: sample_obj.splits option.splits pyval.splits bool.splits)

section \<open>The claims\<close>

text \<open>
  Claim C1. Whenever the fitting calls succeed (and, for LDA, the subscripts are in range),
  each function returns a list of topics, every topic a list of words: for LDA one inner
  list per row of the fitted model's \<open>components_\<close>, for BERTopic one inner list per
  entry of the fitted model's \<open>get_topics()\<close>.
\<close>

theorem extract_topics_shape:
  "(lda_fitted lib docs mdf n s = (Inr (feature_names, lda), s1) \<and>
    indices_in_range lib feature_names lda \<longrightarrow>
      (\<exists>topics. extract_topics_with_lda lib docs mdf n s = (Inr topics, s1) \<and>
         length topics = length (components lib lda))) \<and>
   (bertopic_fitted lib docs t m u s = (Inr topic_mapping, s2) \<longrightarrow>
      (\<exists>topics. extract_topics_with_bertopic lib docs t m u s = (Inr topics, s2) \<and>
         length topics = length topic_mapping))"
  by (simp add: extract_topics_with_lda_Inr extract_topics_with_bertopic_Inr lda_topics_Inr
      bertopic_topics_def)

theorem extract_topics_shape_witness:
  "(\<exists>topics. extract_topics_with_lda sample_library 0 (1 / 10) 2 sample_state =
       (Inr topics, snd (lda_fitted sample_library 0 (1 / 10) 2 sample_state)) \<and>
       length topics = 2) \<and>
   (\<exists>topics. extract_topics_with_bertopic sample_library 0 2 10 15 sample_state =
       (Inr topics, snd (bertopic_fitted sample_library 0 2 10 15 sample_state)) \<and>
       length topics = 2)"
  using extract_topics_shape [of sample_library 0 "1 / 10" 2 sample_state
      "[''code'', ''detection'', ''smells'']" "Lda 2 True"
      "snd (lda_fitted sample_library 0 (1 / 10) 2 sample_state)"
      2 10 15
      "[(- 1, [(''tools'', 1 / 2), (''java'', 1 / 4)]), (0, [(''code'', 3 / 4), (''smells'', 1 / 2)])]"
      "snd (bertopic_fitted sample_library 0 2 10 15 sample_state)"]
    run_eqI [OF sample_lda_fitted] run_eqI [OF sample_bertopic_fitted]
    sample_lda_in_range sample_components
  by (simp add: numeral_2_eq_2)

text \<open>
  Claim C2. Each topic returned by \<open>extract_topics_with_lda\<close> is the list of feature
  names at the positions \<open>topic.argsort()[::-1]\<close> of its row of \<open>components_\<close>;
  where \<open>argsort\<close> sorts the row in ascending order, the weights of the words of the
  topic, read in order, never increase.
\<close>

theorem lda_topic_order:
  fixes lib :: "('o, 'w::linorder, 'g) library"
  assumes "extract_topics_with_lda lib docs mdf n s = (Inr topics, s')"
  shows "\<exists>feature_names lda.
           lda_fitted lib docs mdf n s = (Inr (feature_names, lda), s') \<and>
           topics = map (\<lambda>topic. map (\<lambda>i. feature_names ! i) (rev (argsort lib topic)))
                      (components lib lda) \<and>
           (\<forall>topic \<in> set (components lib lda).
              sorted (map (\<lambda>i. topic ! i) (argsort lib topic)) \<longrightarrow>
              sorted_wrt (\<lambda>a b. b \<le> a) (map (\<lambda>i. topic ! i) (rev (argsort lib topic))))"
  using assms
  by (auto simp: extract_topics_with_lda_Inr lda_topics_Inr rev_map[symmetric] sorted_wrt_rev)

theorem lda_topic_order_witness:
  "extract_topics_with_lda sample_library 0 (1 / 10) 2 sample_state =
     (Inr [[''detection'', ''smells'', ''code''], [''smells'', ''code'', ''detection'']],
      snd (extract_topics_with_lda sample_library 0 (1 / 10) 2 sample_state)) \<and>
   [[''detection'', ''smells'', ''code''], [''smells'', ''code'', ''detection'']] =
     map (\<lambda>topic. map (\<lambda>i. [''code'', ''detection'', ''smells''] ! i)
                    (rev (argsort sample_library topic)))
       [[2, 7 / 2, 3], [3, 1 / 2, 3]] \<and>
   list_all (\<lambda>topic. sorted_wrt (\<lambda>a b. b \<le> a)
                      (map (\<lambda>i. topic ! i) (rev (argsort sample_library topic))))
     [[2, 7 / 2, 3], [3, 1 / 2, 3 :: rat]]"
proof -
  let ?s' = "snd (extract_topics_with_lda sample_library 0 (1 / 10) 2 sample_state)"
  have run: "extract_topics_with_lda sample_library 0 (1 / 10) 2 sample_state =
     (Inr [[''detection'', ''smells'', ''code''], [''smells'', ''code'', ''detection'']], ?s')"
    by (rule run_eqI [OF sample_lda_result])
  from lda_topic_order [OF run] obtain feature_names lda where
    fitted: "lda_fitted sample_library 0 (1 / 10) 2 sample_state = (Inr (feature_names, lda), ?s')"
    and topics: "[[''detection'', ''smells'', ''code''], [''smells'', ''code'', ''detection'']] =
      map (\<lambda>topic. map (\<lambda>i. feature_names ! i) (rev (argsort sample_library topic)))
        (components sample_library lda)"
    and order: "\<forall>topic \<in> set (components sample_library lda).
      sorted (map (\<lambda>i. topic ! i) (argsort sample_library topic)) \<longrightarrow>
      sorted_wrt (\<lambda>a b. b \<le> a) (map (\<lambda>i. topic ! i) (rev (argsort sample_library topic)))"
    by (elim exE conjE) (rule that)
  from fitted sample_lda_fitted have fn: "feature_names = [''code'', ''detection'', ''smells'']"
    and lda: "lda = Lda 2 True"
    by simp_all
  from order sample_argsort_sorted
  have "\<forall>topic \<in> set (components sample_library lda).
      sorted_wrt (\<lambda>a b. b \<le> a) (map (\<lambda>i. topic ! i) (rev (argsort sample_library topic)))"
    by blast
  with run topics show ?thesis
    by (simp add: fn lda sample_components list_all_iff)
qed


text \<open>
  Claim C4. A successful run of either function is the straight line of library calls
  below, each made once, in this order, on the world the call before left, and the
  returned topics are computed from the values those calls returned and from nothing
  else. For LDA: the import, the vectorizer, its fit on the documents, its feature names,
  the LDA model with fixed and passed hyperparameters, its fit on the term-frequency
  matrix, then the mapping of the reversed argsort positions of every row of
  \<open>components_\<close> to feature names. For BERTopic: the imports, the vectorizer, UMAP and
  BERTopic with fixed and passed hyperparameters, the fit on the documents,
  \<open>get_topics()\<close>, then the words of its pairs.
\<close>

theorem straight_line_orchestration:
  "(extract_topics_with_lda lib docs min_document_frequency number_of_topics s = (Inr topics, s') \<longrightarrow>
      (\<exists>w1 vectorizer w2 vectorizer' tf w3 feature_names w4 lda w5 lda'.
         import_from lib ''sklearn.decomposition'' ''LatentDirichletAllocation'' (fst s) = (Inr (), w1) \<and>
         CountVectorizer lib (lda_vectorizer_kwargs min_document_frequency) w1 = (Inr vectorizer, w2) \<and>
         vectorizer_fit_transform lib vectorizer docs w2 = (Inr (vectorizer', tf), w3) \<and>
         get_feature_names_out lib vectorizer' w3 = (Inr feature_names, w4) \<and>
         LatentDirichletAllocation lib (lda_kwargs number_of_topics) w4 = (Inr lda, w5) \<and>
         lda_fit lib lda tf w5 = (Inr lda', fst s') \<and>
         topics = map (\<lambda>topic. map (\<lambda>i. feature_names ! i) (rev (argsort lib topic)))
                    (components lib lda') \<and>
         new_events s s' =
           [(Import_from ''sklearn.decomposition'' ''LatentDirichletAllocation'', Returned),
            (New_CountVectorizer (lda_vectorizer_kwargs min_document_frequency), Returned),
            (Vectorizer_fit_transform vectorizer docs, Returned),
            (Get_feature_names_out vectorizer', Returned),
            (New_LatentDirichletAllocation (lda_kwargs number_of_topics), Returned),
            (Lda_fit lda tf, Returned)])) \<and>
   (extract_topics_with_bertopic lib docs top_n_words min_topic_size umap_n_neighbors s = (Inr topics', s'') \<longrightarrow>
      (\<exists>w1 w2 vectorizer_model w3 umap_model w4 topic_model w5 topic_model' w6 topic_mapping.
         import_from lib ''bertopic'' ''BERTopic'' (fst s) = (Inr (), w1) \<and>
         import_from lib ''umap.umap_'' ''UMAP'' w1 = (Inr (), w2) \<and>
         CountVectorizer lib bertopic_vectorizer_kwargs w2 = (Inr vectorizer_model, w3) \<and>
         UMAP lib (umap_kwargs umap_n_neighbors) w3 = (Inr umap_model, w4) \<and>
         BERTopic lib (bertopic_kwargs top_n_words min_topic_size vectorizer_model umap_model) w4
           = (Inr topic_model, w5) \<and>
         bertopic_fit_transform lib topic_model docs w5 = (Inr topic_model', w6) \<and>
         get_topics lib topic_model' w6 = (Inr topic_mapping, fst s'') \<and>
         topics' = map (\<lambda>topic_group. map fst topic_group) (map snd topic_mapping) \<and>
         new_events s s'' =
           [(Import_from ''bertopic'' ''BERTopic'', Returned),
            (Import_from ''umap.umap_'' ''UMAP'', Returned),
            (New_CountVectorizer bertopic_vectorizer_kwargs, Returned),
            (New_UMAP (umap_kwargs umap_n_neighbors), Returned),
            (New_BERTopic (bertopic_kwargs top_n_words min_topic_size vectorizer_model umap_model),
             Returned),
            (Bertopic_fit_transform topic_model docs, Returned),
            (Get_topics topic_model', Returned)]))"
  (is "(_ \<longrightarrow> ?lda_steps) \<and> (_ \<longrightarrow> ?bertopic_steps)")
proof (intro conjI impI)
  assume "extract_topics_with_lda lib docs min_document_frequency number_of_topics s = (Inr topics, s')"
  then obtain feature_names lda' where
    fitted: "lda_fitted lib docs min_document_frequency number_of_topics s = (Inr (feature_names, lda'), s')"
    and topics: "topics = map (\<lambda>topic. map (\<lambda>i. feature_names ! i) (rev (argsort lib topic)))
                    (components lib lda')"
    by (auto simp: extract_topics_with_lda_Inr lda_topics_Inr)
  from fitted[unfolded lda_fitted_run] topics
  show ?lda_steps
    by (clarsimp simp: new_events_def) blast?
next
  assume "extract_topics_with_bertopic lib docs top_n_words min_topic_size umap_n_neighbors s = (Inr topics', s'')"
  then obtain tm where
    fitted: "bertopic_fitted lib docs top_n_words min_topic_size umap_n_neighbors s = (Inr tm, s'')"
    and topics: "topics' = map (\<lambda>topic_group. map fst topic_group) (map snd tm)"
    by (auto simp: extract_topics_with_bertopic_Inr bertopic_topics_def case_prod_unfold)
  from fitted[unfolded bertopic_fitted_run] topics
  show ?bertopic_steps
    by (clarsimp simp: new_events_def) blast?
qed


theorem straight_line_orchestration_witness:
  "extract_topics_with_lda sample_library 0 (1 / 10) 2 sample_state =
     (Inr [[''detection'', ''smells'', ''code''], [''smells'', ''code'', ''detection'']],
      snd (extract_topics_with_lda sample_library 0 (1 / 10) 2 sample_state)) \<and>
   (\<exists>vectorizer vectorizer' tf lda.
      new_events sample_state (snd (extract_topics_with_lda sample_library 0 (1 / 10) 2 sample_state)) =
        [(Import_from ''sklearn.decomposition'' ''LatentDirichletAllocation'', Returned),
         (New_CountVectorizer (lda_vectorizer_kwargs (1 / 10)), Returned),
         (Vectorizer_fit_transform vectorizer 0, Returned),
         (Get_feature_names_out vectorizer', Returned),
         (New_LatentDirichletAllocation (lda_kwargs 2), Returned),
         (Lda_fit lda tf, Returned)]) \<and>
   extract_topics_with_bertopic sample_library 0 2 10 15 sample_state =
     (Inr [[''tools'', ''java''], [''code'', ''smells'']],
      snd (extract_topics_with_bertopic sample_library 0 2 10 15 sample_state)) \<and>
   (\<exists>vectorizer_model umap_model topic_model topic_model'.
      new_events sample_state (snd (extract_topics_with_bertopic sample_library 0 2 10 15 sample_state)) =
        [(Import_from ''bertopic'' ''BERTopic'', Returned),
         (Import_from ''umap.umap_'' ''UMAP'', Returned),
         (New_CountVectorizer bertopic_vectorizer_kwargs, Returned),
         (New_UMAP (umap_kwargs 15), Returned),
         (New_BERTopic (bertopic_kwargs 2 10 vectorizer_model umap_model), Returned),
         (Bertopic_fit_transform topic_model 0, Returned),
         (Get_topics topic_model', Returned)])"
proof -
  let ?s1 = "snd (extract_topics_with_lda sample_library 0 (1 / 10) 2 sample_state)"
  let ?s2 = "snd (extract_topics_with_bertopic sample_library 0 2 10 15 sample_state)"
  have lda: "extract_topics_with_lda sample_library 0 (1 / 10) 2 sample_state =
     (Inr [[''detection'', ''smells'', ''code''], [''smells'', ''code'', ''detection'']], ?s1)"
    by (rule run_eqI [OF sample_lda_result])
  have bert: "extract_topics_with_bertopic sample_library 0 2 10 15 sample_state =
     (Inr [[''tools'', ''java''], [''code'', ''smells'']], ?s2)"
    by (rule run_eqI [OF sample_bertopic_result])
  note steps = straight_line_orchestration [of sample_library 0 "1 / 10" 2 sample_state
      "[[''detection'', ''smells'', ''code''], [''smells'', ''code'', ''detection'']]" ?s1
      2 10 15 "[[''tools'', ''java''], [''code'', ''smells'']]" ?s2]
  from steps [THEN conjunct1, THEN mp, OF lda]
  have a: "\<exists>vectorizer vectorizer' tf lda.
      new_events sample_state ?s1 =
        [(Import_from ''sklearn.decomposition'' ''LatentDirichletAllocation'', Returned),
         (New_CountVectorizer (lda_vectorizer_kwargs (1 / 10)), Returned),
         (Vectorizer_fit_transform vectorizer 0, Returned),
         (Get_feature_names_out vectorizer', Returned),
         (New_LatentDirichletAllocation (lda_kwargs 2), Returned),
         (Lda_fit lda tf, Returned)]"
    by blast
  from steps [THEN conjunct2, THEN mp, OF bert]
  have b: "\<exists>vectorizer_model umap_model topic_model topic_model'.
      new_events sample_state ?s2 =
        [(Import_from ''bertopic'' ''BERTopic'', Returned),
         (Import_from ''umap.umap_'' ''UMAP'', Returned),
         (New_CountVectorizer bertopic_vectorizer_kwargs, Returned),
         (New_UMAP (umap_kwargs 15), Returned),
         (New_BERTopic (bertopic_kwargs 2 10 vectorizer_model umap_model), Returned),
         (Bertopic_fit_transform topic_model 0, Returned),
         (Get_topics topic_model', Returned)]"
    by blast
  from lda a bert b show ?thesis by (intro conjI)
qed

text \<open>
  Claim C5. In every run, successful or not, every constructor either function calls
  receives exactly the keyword arguments below: the caller's values unaltered
  (\<open>min_document_frequency\<close> as \<open>min_df\<close>, \<open>number_of_topics\<close> as
  \<open>n_components\<close>, \<open>umap_n_neighbors\<close> as \<open>n_neighbors\<close>,
  \<open>top_n_words\<close> and \<open>min_topic_size\<close> under their own names), constants for
  every other hyperparameter, and English stop words with n-grams from 1 to 3 for the
  vectorizer of both strategies. A successful run has made each of these constructor calls.
\<close>

theorem parameters_reach_libraries_unaltered:
  "(extract_topics_with_lda lib docs min_document_frequency number_of_topics s = (r, s') \<longrightarrow>
      (\<forall>ev \<in> set (new_events s s').
         (\<forall>kw. fst ev = New_CountVectorizer kw \<longrightarrow>
            kw = [(''min_df'', PyFloat min_document_frequency),
                  (''max_df'', PyFloat 1),
                  (''ngram_range'', PyTuple [PyInt 1, PyInt 3]),
                  (''max_features'', PyNone),
                  (''stop_words'', PyStr ''english'')]) \<and>
         (\<forall>kw. fst ev = New_LatentDirichletAllocation kw \<longrightarrow>
            kw = [(''n_components'', PyInt number_of_topics),
                  (''doc_topic_prior'', PyNone),
                  (''topic_word_prior'', PyNone),
                  (''learning_method'', PyStr ''batch''),
                  (''learning_decay'', PyFloat (7 / 10)),
                  (''learning_offset'', PyFloat 10),
                  (''max_iter'', PyInt 5000),
                  (''batch_size'', PyInt 128),
                  (''evaluate_every'', PyInt (- 1)),
                  (''total_samples'', PyFloat 1000000),
                  (''perp_tol'', PyFloat (1 / 10)),
                  (''mean_change_tol'', PyFloat (1 / 1000)),
                  (''max_doc_update_iter'', PyInt 100),
                  (''random_state'', PyInt 0)]) \<and>
         (\<forall>kw. fst ev \<noteq> New_UMAP kw \<and> fst ev \<noteq> New_BERTopic kw)) \<and>
      (\<forall>topics. r = Inr topics \<longrightarrow>
         (\<exists>kw. (New_CountVectorizer kw, Returned) \<in> set (new_events s s')) \<and>
         (\<exists>kw. (New_LatentDirichletAllocation kw, Returned) \<in> set (new_events s s')))) \<and>
   (extract_topics_with_bertopic lib docs top_n_words min_topic_size umap_n_neighbors s = (r', s'') \<longrightarrow>
      (\<forall>ev \<in> set (new_events s s'').
         (\<forall>kw. fst ev = New_CountVectorizer kw \<longrightarrow>
            kw = [(''stop_words'', PyStr ''english''),
                  (''ngram_range'', PyTuple [PyInt 1, PyInt 3])]) \<and>
         (\<forall>kw. fst ev = New_UMAP kw \<longrightarrow>
            kw = [(''n_neighbors'', PyInt umap_n_neighbors),
                  (''n_components'', PyInt 5),
                  (''min_dist'', PyFloat 0),
                  (''metric'', PyStr ''cosine''),
                  (''low_memory'', PyBool False)]) \<and>
         (\<forall>kw. fst ev = New_BERTopic kw \<longrightarrow>
            (\<exists>vectorizer_model umap_model.
               kw = [(''language'', PyStr ''english''),
                     (''verbose'', PyBool True),
                     (''top_n_words'', PyInt top_n_words),
                     (''min_topic_size'', PyInt min_topic_size),
                     (''vectorizer_model'', PyObj vectorizer_model),
                     (''umap_model'', PyObj umap_model)])) \<and>
         (\<forall>kw. fst ev \<noteq> New_LatentDirichletAllocation kw)) \<and>
      (\<forall>topics. r' = Inr topics \<longrightarrow>
         (\<exists>kw. (New_CountVectorizer kw, Returned) \<in> set (new_events s s'')) \<and>
         (\<exists>kw. (New_UMAP kw, Returned) \<in> set (new_events s s'')) \<and>
         (\<exists>kw. (New_BERTopic kw, Returned) \<in> set (new_events s s''))))"
  (is "(_ \<longrightarrow> (\<forall>ev \<in> _. ?lda_kwargs ev) \<and> ?lda_made) \<and>
       (_ \<longrightarrow> (\<forall>ev \<in> _. ?bertopic_kwargs ev) \<and> ?bertopic_made)")
proof (intro conjI impI)
  assume run: "extract_topics_with_lda lib docs min_document_frequency number_of_topics s = (r, s')"
  obtain r1 where fitted: "lda_fitted lib docs min_document_frequency number_of_topics s = (r1, s')"
    using run extract_lda_state [of lib docs min_document_frequency number_of_topics s]
    by (cases "lda_fitted lib docs min_document_frequency number_of_topics s") simp
  from traced_new_events(2) [OF traced_lda_fitted fitted]
  have ok: "\<forall>ev \<in> set (new_events s s'). lda_call_ok min_document_frequency number_of_topics (fst ev)" .
  show "\<forall>ev \<in> set (new_events s s'). ?lda_kwargs ev"
  proof
    fix ev
    assume "ev \<in> set (new_events s s')"
    with ok have "lda_call_ok min_document_frequency number_of_topics (fst ev)"
      by blast
    then show "?lda_kwargs ev"
      by (cases "fst ev") (simp_all add: lda_call_ok_def lda_vectorizer_kwargs_def lda_kwargs_def)
  qed
  show ?lda_made
  proof (intro allI impI)
    fix topics
    assume "r = Inr topics"
    with run obtain feature_names lda where
      "lda_fitted lib docs min_document_frequency number_of_topics s = (Inr (feature_names, lda), s')"
      by (auto simp: extract_topics_with_lda_Inr)
    from lda_fitted_events [OF this]
    show "(\<exists>kw. (New_CountVectorizer kw, Returned) \<in> set (new_events s s')) \<and>
         (\<exists>kw. (New_LatentDirichletAllocation kw, Returned) \<in> set (new_events s s'))"
      by auto
  qed
next
  assume run: "extract_topics_with_bertopic lib docs top_n_words min_topic_size umap_n_neighbors s = (r', s'')"
  from traced_new_events(2) [OF traced_extract_bertopic run]
  have ok: "\<forall>ev \<in> set (new_events s s'').
      bertopic_call_ok top_n_words min_topic_size umap_n_neighbors (fst ev)" .
  show "\<forall>ev \<in> set (new_events s s''). ?bertopic_kwargs ev"
  proof
    fix ev
    assume "ev \<in> set (new_events s s'')"
    with ok have "bertopic_call_ok top_n_words min_topic_size umap_n_neighbors (fst ev)"
      by blast
    then show "?bertopic_kwargs ev"
      by (cases "fst ev")
         (simp_all add: bertopic_call_ok_def bertopic_vectorizer_kwargs_def umap_kwargs_def
            bertopic_kwargs_def)
  qed
  show ?bertopic_made
  proof (intro allI impI)
    fix topics
    assume "r' = Inr topics"
    with run obtain tm where
      "bertopic_fitted lib docs top_n_words min_topic_size umap_n_neighbors s = (Inr tm, s'')"
      by (auto simp: extract_topics_with_bertopic_Inr)
    from bertopic_fitted_events [OF this]
    show "(\<exists>kw. (New_CountVectorizer kw, Returned) \<in> set (new_events s s'')) \<and>
         (\<exists>kw. (New_UMAP kw, Returned) \<in> set (new_events s s'')) \<and>
         (\<exists>kw. (New_BERTopic kw, Returned) \<in> set (new_events s s''))"
      by auto
  qed
qed

theorem parameters_reach_libraries_unaltered_witness:
  "extract_topics_with_lda sample_library 0 (1 / 10) 2 sample_state =
     (Inr [[''detection'', ''smells'', ''code''], [''smells'', ''code'', ''detection'']],
      snd (extract_topics_with_lda sample_library 0 (1 / 10) 2 sample_state)) \<and>
   (New_CountVectorizer
      [(''min_df'', PyFloat (1 / 10)), (''max_df'', PyFloat 1),
       (''ngram_range'', PyTuple [PyInt 1, PyInt 3]), (''max_features'', PyNone),
       (''stop_words'', PyStr ''english'')], Returned)
     \<in> set (new_events sample_state
              (snd (extract_topics_with_lda sample_library 0 (1 / 10) 2 sample_state))) \<and>
   extract_topics_with_bertopic sample_library 0 2 10 15 sample_state =
     (Inr [[''tools'', ''java''], [''code'', ''smells'']],
      snd (extract_topics_with_bertopic sample_library 0 2 10 15 sample_state)) \<and>
   (New_UMAP
      [(''n_neighbors'', PyInt 15), (''n_components'', PyInt 5), (''min_dist'', PyFloat 0),
       (''metric'', PyStr ''cosine''), (''low_memory'', PyBool False)], Returned)
     \<in> set (new_events sample_state
              (snd (extract_topics_with_bertopic sample_library 0 2 10 15 sample_state)))"
proof -
  let ?s1 = "snd (extract_topics_with_lda sample_library 0 (1 / 10) 2 sample_state)"
  let ?s2 = "snd (extract_topics_with_bertopic sample_library 0 2 10 15 sample_state)"
  have lda: "extract_topics_with_lda sample_library 0 (1 / 10) 2 sample_state =
     (Inr [[''detection'', ''smells'', ''code''], [''smells'', ''code'', ''detection'']], ?s1)"
    by (rule run_eqI [OF sample_lda_result])
  have bert: "extract_topics_with_bertopic sample_library 0 2 10 15 sample_state =
     (Inr [[''tools'', ''java''], [''code'', ''smells'']], ?s2)"
    by (rule run_eqI [OF sample_bertopic_result])
  note p = parameters_reach_libraries_unaltered [of sample_library 0 "1 / 10" 2 sample_state
      "Inr [[''detection'', ''smells'', ''code''], [''smells'', ''code'', ''detection'']]" ?s1
      2 10 15 "Inr [[''tools'', ''java''], [''code'', ''smells'']]" ?s2]
  note p1 = p [THEN conjunct1, THEN mp, OF lda]
  note p2 = p [THEN conjunct2, THEN mp, OF bert]
  from p1 [THEN conjunct2] obtain kw1 where
    k1: "(New_CountVectorizer kw1, Returned) \<in> set (new_events sample_state ?s1)"
    by blast
  from p1 [THEN conjunct1, rule_format, OF k1]
  have "kw1 = [(''min_df'', PyFloat (1 / 10)), (''max_df'', PyFloat 1),
       (''ngram_range'', PyTuple [PyInt 1, PyInt 3]), (''max_features'', PyNone),
       (''stop_words'', PyStr ''english'')]"
    by simp
  with k1 have a: "(New_CountVectorizer
      [(''min_df'', PyFloat (1 / 10)), (''max_df'', PyFloat 1),
       (''ngram_range'', PyTuple [PyInt 1, PyInt 3]), (''max_features'', PyNone),
       (''stop_words'', PyStr ''english'')], Returned) \<in> set (new_events sample_state ?s1)"
    by simp
  from p2 [THEN conjunct2] obtain kw2 where
    k2: "(New_UMAP kw2, Returned) \<in> set (new_events sample_state ?s2)"
    by blast
  from p2 [THEN conjunct1, rule_format, OF k2]
  have "kw2 = [(''n_neighbors'', PyInt 15), (''n_components'', PyInt 5), (''min_dist'', PyFloat 0),
       (''metric'', PyStr ''cosine''), (''low_memory'', PyBool False)]"
    by simp
  with k2 have b: "(New_UMAP
      [(''n_neighbors'', PyInt 15), (''n_components'', PyInt 5), (''min_dist'', PyFloat 0),
       (''metric'', PyStr ''cosine''), (''low_memory'', PyBool False)], Returned)
     \<in> set (new_events sample_state ?s2)"
    by simp
  from lda a bert b show ?thesis by (intro conjI)
qed

text \<open>
  Claim C6. In every run of either function, an exception raised by a library call is the
  outcome of the function, the same exception; and an exception that is the outcome of the
  function was raised by a library call. For \<open>extract_topics_with_lda\<close> the second
  half needs scikit-learn's side of the subscript \<open>feature_names[i]\<close>: positions
  in range whenever the fitting succeeds.
\<close>

theorem library_errors_propagate:
  "(extract_topics_with_lda lib docs min_document_frequency number_of_topics s = (r, s') \<longrightarrow>
      (\<forall>c e. (c, Raised e) \<in> set (new_events s s') \<longrightarrow> r = Inl e) \<and>
      ((\<forall>feature_names lda.
          lda_fitted lib docs min_document_frequency number_of_topics s
            = (Inr (feature_names, lda), s') \<longrightarrow>
          indices_in_range lib feature_names lda) \<longrightarrow>
       (\<forall>e. r = Inl e \<longrightarrow> (\<exists>c. (c, Raised e) \<in> set (new_events s s'))))) \<and>
   (extract_topics_with_bertopic lib docs top_n_words min_topic_size umap_n_neighbors s = (r', s'') \<longrightarrow>
      (\<forall>c e. (c, Raised e) \<in> set (new_events s s'') \<longrightarrow> r' = Inl e) \<and>
      (\<forall>e. r' = Inl e \<longrightarrow> (\<exists>c. (c, Raised e) \<in> set (new_events s s''))))"
proof (intro conjI impI allI)
  fix c e
  assume run: "extract_topics_with_lda lib docs min_document_frequency number_of_topics s = (r, s')"
    and ev: "(c, Raised e) \<in> set (new_events s s')"
  obtain r1 where fitted: "lda_fitted lib docs min_document_frequency number_of_topics s = (r1, s')"
    using run extract_lda_state [of lib docs min_document_frequency number_of_topics s]
    by (cases "lda_fitted lib docs min_document_frequency number_of_topics s") simp
  from traced_new_events(3) [OF traced_lda_fitted fitted] ev have "r1 = Inl e"
    by blast
  with fitted run show "r = Inl e"
    by (simp add: extract_topics_with_lda_def bind_py_def)
next
  fix e
  assume run: "extract_topics_with_lda lib docs min_document_frequency number_of_topics s = (r, s')"
    and shape: "\<forall>feature_names lda.
          lda_fitted lib docs min_document_frequency number_of_topics s
            = (Inr (feature_names, lda), s') \<longrightarrow>
          indices_in_range lib feature_names lda"
    and r: "r = Inl e"
  from run r consider
      "lda_fitted lib docs min_document_frequency number_of_topics s = (Inl e, s')"
    | feature_names lda where
        "lda_fitted lib docs min_document_frequency number_of_topics s = (Inr (feature_names, lda), s')"
        "lda_topics lib feature_names lda = Inl e"
    by (auto simp: extract_topics_with_lda_Inl)
  then show "\<exists>c. (c, Raised e) \<in> set (new_events s s')"
  proof cases
    case 1
    from traced_new_events(4) [OF traced_lda_fitted 1] show ?thesis
      by blast
  next
    case 2
    with shape have "indices_in_range lib feature_names lda"
      by blast
    with lda_topics_Inl [OF 2(2)] show ?thesis
      by simp
  qed
next
  fix c e
  assume "extract_topics_with_bertopic lib docs top_n_words min_topic_size umap_n_neighbors s = (r', s'')"
    and "(c, Raised e) \<in> set (new_events s s'')"
  with traced_new_events(3) [OF traced_extract_bertopic] show "r' = Inl e"
    by blast
next
  fix e
  assume "extract_topics_with_bertopic lib docs top_n_words min_topic_size umap_n_neighbors s = (r', s'')"
    and "r' = Inl e"
  with traced_new_events(4) [OF traced_extract_bertopic] show "\<exists>c. (c, Raised e) \<in> set (new_events s s'')"
    by blast
qed

theorem library_errors_propagate_witness:
  "extract_topics_with_lda sample_library 1 (1 / 10) 2 sample_state =
     (Inl (LibraryError ''empty vocabulary''),
      snd (extract_topics_with_lda sample_library 1 (1 / 10) 2 sample_state)) \<and>
   (\<exists>c. (c, Raised (LibraryError ''empty vocabulary''))
        \<in> set (new_events sample_state
                 (snd (extract_topics_with_lda sample_library 1 (1 / 10) 2 sample_state)))) \<and>
   extract_topics_with_bertopic sample_library 1 2 10 15 sample_state =
     (Inl (LibraryError ''empty corpus''),
      snd (extract_topics_with_bertopic sample_library 1 2 10 15 sample_state)) \<and>
   (\<exists>c. (c, Raised (LibraryError ''empty corpus''))
        \<in> set (new_events sample_state
                 (snd (extract_topics_with_bertopic sample_library 1 2 10 15 sample_state))))"
proof -
  let ?s1 = "snd (extract_topics_with_lda sample_library 1 (1 / 10) 2 sample_state)"
  let ?s2 = "snd (extract_topics_with_bertopic sample_library 1 2 10 15 sample_state)"
  have lda: "extract_topics_with_lda sample_library 1 (1 / 10) 2 sample_state =
     (Inl (LibraryError ''empty vocabulary''), ?s1)"
    by (rule run_eqI [OF sample_lda_empty_docs])
  have bert: "extract_topics_with_bertopic sample_library 1 2 10 15 sample_state =
     (Inl (LibraryError ''empty corpus''), ?s2)"
    by (rule run_eqI [OF sample_bertopic_empty_docs])
  have shape: "\<forall>feature_names lda.
      lda_fitted sample_library 1 (1 / 10) 2 sample_state = (Inr (feature_names, lda), ?s1) \<longrightarrow>
      indices_in_range sample_library feature_names lda"
    using sample_lda_fitted_empty_docs by auto
  note p = library_errors_propagate [of sample_library 1 "1 / 10" 2 sample_state
      "Inl (LibraryError ''empty vocabulary'')" ?s1 2 10 15 "Inl (LibraryError ''empty corpus'')" ?s2]
  from p [THEN conjunct1, THEN mp, OF lda, THEN conjunct2, THEN mp, OF shape]
  have a: "\<exists>c. (c, Raised (LibraryError ''empty vocabulary'')) \<in> set (new_events sample_state ?s1)"
    by blast
  from p [THEN conjunct2, THEN mp, OF bert, THEN conjunct2]
  have b: "\<exists>c. (c, Raised (LibraryError ''empty corpus'')) \<in> set (new_events sample_state ?s2)"
    by blast
  from lda a bert b show ?thesis by (intro conjI)
qed

text \<open>
  Claim C7. Neither function writes through \<open>docs\<close>: it only hands the reference to
  the libraries. With libraries that do not write through it, the list behind
  \<open>docs\<close> holds the same strings after either function as before, whether the
  function returns or raises. The module has no variable of its own at module level; the
  state of a run is the store, the libraries' state and the record of calls.
\<close>

theorem docs_unchanged:
  assumes "library_keeps lib docs"
  shows "store (fst (snd (extract_topics_with_lda lib docs min_document_frequency number_of_topics s))) docs
           = store (fst s) docs \<and>
         store (fst (snd (extract_topics_with_bertopic lib docs top_n_words min_topic_size
                            umap_n_neighbors s))) docs
           = store (fst s) docs"
proof -
  have "preserves docs (extract_topics_with_lda lib docs min_document_frequency number_of_topics)"
    and "preserves docs (extract_topics_with_bertopic lib docs top_n_words min_topic_size
           umap_n_neighbors)"
    using assms by (rule preserves_extract_lda, rule preserves_extract_bertopic)
  then show ?thesis
    unfolding preserves_def by blast
qed

theorem docs_unchanged_witness:
  "library_keeps sample_library 0 \<and>
   store (fst (snd (extract_topics_with_lda sample_library 0 (1 / 10) 2 sample_state))) 0 = sample_docs \<and>
   store (fst (snd (extract_topics_with_bertopic sample_library 0 2 10 15 sample_state))) 0 = sample_docs"
  using docs_unchanged [OF sample_library_keeps, of 0 "1 / 10" 2 sample_state 2 10 15]
    sample_library_keeps [of 0]
  by (simp add: sample_state_def)

text \<open>
  Claim C8. When \<open>extract_topics_with_lda\<close> succeeds, every topic is a permutation of the
  whole vocabulary: it holds every feature name exactly once and has the vocabulary's
  length. The libraries' part: feature names are distinct, a row of \<open>components_\<close> has
  one weight per feature name, and \<open>argsort\<close> returns a permutation of the positions of
  the row.
\<close>

theorem lda_topic_is_permutation_of_vocabulary:
  assumes fitted: "lda_fitted lib docs mdf n s = (Inr (feature_names, lda), s1)"
    and success: "extract_topics_with_lda lib docs mdf n s = (Inr topics, s2)"
    and vocabulary: "distinct feature_names"
    and columns: "\<forall>topic \<in> set (components lib lda). length topic = length feature_names"
    and positions: "\<forall>topic \<in> set (components lib lda).
                     mset (argsort lib topic) = mset [0..<length topic]"
  shows "\<forall>words \<in> set topics.
           mset words = mset feature_names \<and> distinct words \<and>
           length words = length feature_names"
proof
  fix words
  assume w: "words \<in> set topics"
  from success fitted have
    "topics = map (\<lambda>topic. map (\<lambda>i. feature_names ! i) (rev (argsort lib topic)))
                (components lib lda)"
    by (auto simp: extract_topics_with_lda_Inr lda_topics_Inr)
  with w obtain topic where t: "topic \<in> set (components lib lda)"
    and words: "words = map (\<lambda>i. feature_names ! i) (rev (argsort lib topic))"
    by auto
  from t positions columns have p: "mset (argsort lib topic) = mset [0..<length feature_names]"
    by simp
  have "mset words = image_mset (\<lambda>i. feature_names ! i) (mset (argsort lib topic))"
    by (simp add: words)
  also have "\<dots> = image_mset (\<lambda>i. feature_names ! i) (mset [0..<length feature_names])"
    by (simp only: p)
  also have "\<dots> = mset feature_names"
    by (rule mset_map_nth_upt)
  finally have m: "mset words = mset feature_names" .
  then have "distinct words" "length words = length feature_names"
    using vocabulary by (metis mset_eq_imp_distinct_iff, metis mset_eq_length)
  with m show "mset words = mset feature_names \<and> distinct words \<and>
           length words = length feature_names"
    by simp
qed

theorem lda_topic_is_permutation_of_vocabulary_witness:
  "list_all (\<lambda>words. mset words = mset [''code'', ''detection'', ''smells''] \<and> distinct words \<and>
        length words = length [''code'', ''detection'', ''smells''])
     [[''detection'', ''smells'', ''code''], [''smells'', ''code'', ''detection'']]"
  using lda_topic_is_permutation_of_vocabulary
    [OF run_eqI [OF sample_lda_fitted] run_eqI [OF sample_lda_result]]
    sample_argsort_positions
  by (simp add: sample_components list_all_iff)

text \<open>
  Claim C9. When \<open>extract_topics_with_lda\<close> succeeds, it returns
  \<open>number_of_topics\<close> topics. The libraries' part: the fitted model has as many rows in
  \<open>components_\<close> as the \<open>n_components\<close> it was constructed with; that the model
  is constructed with \<open>n_components = number_of_topics\<close> is the function's part.
\<close>

theorem lda_number_of_topics:
  assumes fitted: "lda_fitted lib docs mdf number_of_topics s = (Inr (feature_names, lda), s1)"
    and success: "extract_topics_with_lda lib docs mdf number_of_topics s = (Inr topics, s2)"
    and rows: "\<And>kw. (New_LatentDirichletAllocation kw, Returned) \<in> set (new_events s s2) \<Longrightarrow>
                 map_of kw ''n_components'' = Some (PyInt (int (length (components lib lda))))"
  shows "int (length topics) = number_of_topics"
proof -
  from success fitted have s2: "s2 = s1"
    and len: "length topics = length (components lib lda)"
    by (auto simp: extract_topics_with_lda_Inr lda_topics_Inr)
  from lda_fitted_events [OF fitted]
  have "(New_LatentDirichletAllocation (lda_kwargs number_of_topics), Returned)
      \<in> set (new_events s s1)"
    by auto
  with rows s2 have "map_of (lda_kwargs number_of_topics :: 'a kwargs) ''n_components'' =
      Some (PyInt (int (length (components lib lda))))"
    by simp
  with len show ?thesis
    by (simp add: lda_kwargs_def)
qed

theorem lda_number_of_topics_witness:
  "int (length [[''detection'', ''smells'', ''code''], [''smells'', ''code'', ''detection'']]) = 2"
  using lda_number_of_topics
    [OF run_eqI [OF sample_lda_fitted] run_eqI [OF sample_lda_result]]
  by (simp add: sample_lda_events sample_components lda_kwargs_def)




end
